theory Spec2Isabelle
  imports Main
begin

section \<open>The start script of the Atlas server: single-instance supervision by a PID file\<close>

text \<open>
  The development embeds \<^verbatim>\<open>src/distro/src/bin/atlas_start.py\<close> (Python 2): the part of
  \<^verbatim>\<open>main\<close> from line 72 on, which reads the PID file, probes the recorded process, starts
  the Java process and records its identifier, and the \<^verbatim>\<open>__main__\<close> block, which turns
  the result of \<^verbatim>\<open>main\<close> into the exit status. Lines 33 to 70 of \<^verbatim>\<open>main\<close> resolve
  directories, JVM options and the classpath; they are taken as completed, their results
  being opaque arguments of the launch.
\<close>

subsection \<open>Python's string functions used by the script\<close>

text \<open>The whitespace of C's \<^verbatim>\<open>isspace\<close>: space, tab, newline, vertical tab, form feed, return.\<close>

definition isspace :: "char \<Rightarrow> bool" where
  "isspace c = (c = CHR 0x20 \<or> c = CHR 0x09 \<or> c = CHR 0x0A \<or> c = CHR 0x0B \<or> c = CHR 0x0C \<or> c = CHR 0x0D)"

definition isdigit :: "char \<Rightarrow> bool" where
  "isdigit c = (48 \<le> (of_char c :: nat) \<and> (of_char c :: nat) \<le> 57)"

text \<open>\<^verbatim>\<open>s.strip()\<close>: the whitespace at both ends is removed.\<close>

definition strip :: "string \<Rightarrow> string" where
  "strip s = rev (dropWhile isspace (rev (dropWhile isspace s)))"

text \<open>The value of a run of decimal digits, most significant first.\<close>

fun digits_val :: "nat \<Rightarrow> string \<Rightarrow> nat" where
  "digits_val acc [] = acc"
| "digits_val acc (c # cs) = digits_val (acc * 10 + (of_char c - 48)) cs"

text \<open>
  \<^verbatim>\<open>int(s)\<close> for a byte string in base 10, \<open>None\<close> where Python raises ValueError.
  Python 2 skips whitespace before the sign, between the sign and the digits and after
  the digits; at least one digit is required and nothing else may follow.
\<close>

definition py_int :: "string \<Rightarrow> int option" where
  "py_int s =
     (let s1 = dropWhile isspace s;
          neg = (s1 \<noteq> [] \<and> hd s1 = CHR ''-'');
          s2 = (if s1 \<noteq> [] \<and> (hd s1 = CHR ''-'' \<or> hd s1 = CHR ''+'') then tl s1 else s1);
          s3 = dropWhile isspace s2;
          ds = takeWhile isdigit s3;
          rest = dropWhile isspace (dropWhile isdigit s3)
      in if ds = [] \<or> rest \<noteq> [] then None
         else Some (if neg then - int (digits_val 0 ds) else int (digits_val 0 ds)))"

text \<open>\<^verbatim>\<open>str(n)\<close> for a non-negative integer: its decimal digits, no sign, no padding.\<close>

fun py_str :: "nat \<Rightarrow> string" where
  "py_str n = (if n < 10 then [char_of (48 + n)] else py_str (n div 10) @ [char_of (48 + n mod 10)])"

declare py_str.simps [simp del]

subsection \<open>The world of one invocation\<close>

text \<open>
  An exception of Python, named by the call of \<^verbatim>\<open>main\<close> that raises it:
  \<^item> \<open>ValueError lit\<close>: \<^verbatim>\<open>(int)(pid)\<close> at line 84 on a text that is no integer literal;
  \<^item> \<open>AlreadyRunning pid\<close>: raised by \<^verbatim>\<open>mc.server_already_running(pid)\<close>;
  \<^item> \<open>JavaError msg\<close>: raised by \<^verbatim>\<open>mc.java(...)\<close> at line 106;
  \<^item> \<open>WritePidError msg\<close>: raised by \<^verbatim>\<open>mc.writePid(...)\<close> at line 107.
\<close>

datatype error =
    ValueError string
  | AlreadyRunning string
  | JavaError string
  | WritePidError string

text \<open>
  What a \<^verbatim>\<open>print\<close> statement of the script writes: \<open>ExceptionLine e\<close> is
  \<^verbatim>\<open>print "Exception: %s " % str(e)\<close>, \<open>Traceback e\<close> is
  \<^verbatim>\<open>print traceback.format_exc()\<close>, \<open>Started\<close> is line 109. The traceback lists the
  frames down to the raise, among them the line of \<^verbatim>\<open>main\<close> whose call raised.
\<close>

datatype line = ExceptionLine error | Traceback error | Started

text \<open>
  The state the script acts on: the content of the file at \<^verbatim>\<open>metadata_pid_file\<close>
  (\<open>None\<close> when \<^verbatim>\<open>os.path.isfile\<close> is false), the number of calls of \<^verbatim>\<open>mc.java\<close>,
  the identifiers of the processes it created, and the lines printed.
\<close>

record world =
  pid_file :: "string option"
  java_calls :: nat
  procs :: "nat list"
  stdout :: "line list"

text \<open>
  What \<^verbatim>\<open>atlas_config\<close> (imported as \<^verbatim>\<open>mc\<close>) and the operating system supply
  to one invocation: the two platform flags, the two liveness probes, the result
  of \<^verbatim>\<open>mc.java\<close> (the identifier of the new process, or the text of the exception) and
  whether \<^verbatim>\<open>mc.writePid\<close> fails (the text of its exception).
\<close>

record env =
  ON_POSIX :: bool
  IS_WINDOWS :: bool
  unix_exist_pid :: "int \<Rightarrow> bool"
  win_exist_pid :: "string \<Rightarrow> bool"
  java :: "string + nat"
  writePid_error :: "string option"

subsection \<open>Checking the record: lines 75 to 99\<close>

text \<open>
  The outcome of the check, named by what \<^verbatim>\<open>main\<close> does next: \<open>NoRecord\<close> when the
  \<^verbatim>\<open>if\<close> of line 75 is skipped, \<open>Running pid\<close> when \<^verbatim>\<open>mc.server_already_running(pid)\<close>
  is called, \<open>Stale pid\<close> when \<^verbatim>\<open>mc.server_pid_not_running(pid)\<close> is called, and
  \<open>CorruptRecord pid\<close> when \<^verbatim>\<open>(int)(pid)\<close> raises. The identifier is the stripped text,
  as the script passes it on.
\<close>

datatype status = NoRecord | Running string | Stale string | CorruptRecord string

text \<open>Lines 77 to 79: the file is opened for reading, read and closed.\<close>

definition read_pid_file :: "world \<Rightarrow> string \<times> world" where
  "read_pid_file w = (case pid_file w of None \<Rightarrow> ([], w) | Some c \<Rightarrow> (c, w))"

definition checkExisting :: "env \<Rightarrow> world \<Rightarrow> status \<times> world" where
  "checkExisting e w =
     (if pid_file w = None then (NoRecord, w)
      else
        (let (c, w1) = read_pid_file w;
             pid = strip c
         in if ON_POSIX e then
              (case py_int pid of
                 None \<Rightarrow> (CorruptRecord pid, w1)
               | Some n \<Rightarrow> if unix_exist_pid e n then (Running pid, w1) else (Stale pid, w1))
            else if IS_WINDOWS e then
              (if win_exist_pid e pid then (Running pid, w1) else (Stale pid, w1))
            else (Running pid, w1)))"

subsection \<open>The helpers of \<^verbatim>\<open>atlas_config\<close>\<close>

text \<open>
  Modelled from the spec: \<^verbatim>\<open>mc.server_already_running\<close> is missing from the source.
  The spec has \<open>Running(pid)\<close> refuse to start and surface the pid to the caller, a terminal
  failure that the caller of the supervisor turns into a message and a non-zero exit
  status: the helper raises an exception that carries the pid.
\<close>

definition server_already_running :: "string \<Rightarrow> error + unit" where
  "server_already_running pid = Inl (AlreadyRunning pid)"

text \<open>
  Modelled from the spec: \<^verbatim>\<open>mc.server_pid_not_running\<close> is missing from the source.
  The spec has \<open>Stale(pid)\<close> safe to reclaim and start: the helper returns.
\<close>

definition server_pid_not_running :: "string \<Rightarrow> error + unit" where
  "server_pid_not_running pid = Inr ()"

text \<open>
  Modelled from the spec: \<^verbatim>\<open>mc.writePid\<close> is missing from the source. The spec has it
  write a new record, replacing any prior content, the content being the decimal
  process identifier and nothing else; it fails when the identifier cannot be written.
\<close>

definition writePid :: "env \<Rightarrow> world \<Rightarrow> nat \<Rightarrow> error + world" where
  "writePid e w p =
     (case writePid_error e of
        Some m \<Rightarrow> Inl (WritePidError m)
      | None \<Rightarrow> Inr (w\<lparr>pid_file := Some (py_str p)\<rparr>))"

subsection \<open>Launching: lines 103 to 109\<close>

definition launch :: "env \<Rightarrow> world \<Rightarrow> (error + unit) \<times> world" where
  "launch e w =
     (let w1 = w\<lparr>java_calls := Suc (java_calls w)\<rparr>
      in case java e of
           Inl m \<Rightarrow> (Inl (JavaError m), w1)
         | Inr p \<Rightarrow>
             (let w2 = w1\<lparr>procs := procs w1 @ [p]\<rparr>
              in case writePid e w2 p of
                   Inl x \<Rightarrow> (Inl x, w2)
                 | Inr w3 \<Rightarrow> (Inr (), w3\<lparr>stdout := stdout w3 @ [Started]\<rparr>)))"

subsection \<open>\<^verbatim>\<open>main\<close> from line 72 and the \<^verbatim>\<open>__main__\<close> block\<close>

definition main :: "env \<Rightarrow> world \<Rightarrow> (error + unit) \<times> world" where
  "main e w =
     (case checkExisting e w of
        (NoRecord, w1) \<Rightarrow> launch e w1
      | (CorruptRecord pid, w1) \<Rightarrow> (Inl (ValueError pid), w1)
      | (Running pid, w1) \<Rightarrow>
          (case server_already_running pid of
             Inl x \<Rightarrow> (Inl x, w1)
           | Inr _ \<Rightarrow> launch e w1)
      | (Stale pid, w1) \<Rightarrow>
          (case server_pid_not_running pid of
             Inl x \<Rightarrow> (Inl x, w1)
           | Inr _ \<Rightarrow> launch e w1))"

text \<open>
  Lines 111 to 119: \<^verbatim>\<open>returncode\<close> is the value of \<^verbatim>\<open>main()\<close>, which has no
  \<^verbatim>\<open>return\<close> statement and so yields \<^verbatim>\<open>None\<close>; an exception is printed with its
  traceback and \<^verbatim>\<open>returncode\<close> is \<open>-1\<close>.
\<close>

definition script :: "env \<Rightarrow> world \<Rightarrow> int option \<times> world" where
  "script e w =
     (case main e w of
        (Inr _, w1) \<Rightarrow> (None, w1)
      | (Inl x, w1) \<Rightarrow> (Some (- 1), w1\<lparr>stdout := stdout w1 @ [ExceptionLine x, Traceback x]\<rparr>))"

text \<open>
  \<^verbatim>\<open>sys.exit(returncode)\<close>: \<^verbatim>\<open>None\<close> is exit status 0, an integer is the exit status
  modulo 256 (as a POSIX parent process sees it).
\<close>

definition exit_status :: "int option \<Rightarrow> int" where
  "exit_status rc = (case rc of None \<Rightarrow> 0 | Some n \<Rightarrow> n mod 256)"

subsection \<open>The five terminal states of an invocation\<close>

text \<open>
  The result of \<^verbatim>\<open>main\<close> named as the state machine of the supervisor names it:
  a normal return is \<open>Recorded\<close>, and each exception is the failure of the call that
  raises it.
\<close>

datatype outcome = Recorded | Refused | Corrupt | LaunchFailed | PersistFailed

fun outcome_of :: "error + unit \<Rightarrow> outcome" where
  "outcome_of (Inr _) = Recorded"
| "outcome_of (Inl (AlreadyRunning _)) = Refused"
| "outcome_of (Inl (ValueError _)) = Corrupt"
| "outcome_of (Inl (JavaError _)) = LaunchFailed"
| "outcome_of (Inl (WritePidError _)) = PersistFailed"

text \<open>Checking again: the world that a check leaves is the world of the next check.\<close>

definition recheck :: "env \<Rightarrow> world \<Rightarrow> world" where
  "recheck e w = snd (checkExisting e w)"

text \<open>What the \<^verbatim>\<open>__main__\<close> block prints once \<^verbatim>\<open>main\<close> has ended: its report of the failure.\<close>

definition reported :: "env \<Rightarrow> world \<Rightarrow> line list" where
  "reported e w = drop (length (stdout (snd (main e w)))) (stdout (snd (script e w)))"

subsection \<open>Hosts and worlds for the examples\<close>

definition no_record :: world where
  "no_record = \<lparr>pid_file = None, java_calls = 0, procs = [], stdout = []\<rparr>"

definition recorded :: "string \<Rightarrow> world" where
  "recorded c = \<lparr>pid_file = Some c, java_calls = 0, procs = [], stdout = []\<rparr>"

text \<open>A POSIX host on which process 4242 is the only live one; the launch yields process 777.\<close>

definition posix_host :: env where
  "posix_host = \<lparr>ON_POSIX = True, IS_WINDOWS = False, unix_exist_pid = (\<lambda>n. n = 4242),
     win_exist_pid = (\<lambda>s. False), java = Inr 777, writePid_error = None\<rparr>"

definition windows_host :: env where
  "windows_host = \<lparr>ON_POSIX = False, IS_WINDOWS = True, unix_exist_pid = (\<lambda>n. False),
     win_exist_pid = (\<lambda>s. s = ''4242''), java = Inr 777, writePid_error = None\<rparr>"

text \<open>A host that is neither POSIX nor Windows, on which both probes find no process.\<close>

definition other_host :: env where
  "other_host = \<lparr>ON_POSIX = False, IS_WINDOWS = False, unix_exist_pid = (\<lambda>n. False),
     win_exist_pid = (\<lambda>s. False), java = Inr 777, writePid_error = None\<rparr>"

text \<open>A POSIX host on which the Java process cannot be created.\<close>

definition launch_fails :: env where
  "launch_fails = posix_host\<lparr>java := Inl ''No such file or directory''\<rparr>"

text \<open>A POSIX host on which the Java process starts and the PID file cannot be written.\<close>

definition persist_fails :: env where
  "persist_fails = posix_host\<lparr>writePid_error := Some ''Read-only file system''\<rparr>"

section \<open>Properties\<close>

subsection \<open>Stripping and parsing\<close>


lemma dropWhile_keep: "s \<noteq> [] \<Longrightarrow> \<not> P (hd s) \<Longrightarrow> dropWhile P s = s"
  by (cases s) auto


lemma py_str_ne: "py_str n \<noteq> []"
  by (subst py_str.simps) simp

lemma isdigit_char_of: "d < 10 \<Longrightarrow> isdigit (char_of (48 + d :: nat))"
  by (simp add: isdigit_def)

lemma py_str_digits: "\<forall>c\<in>set (py_str n). isdigit c"
proof (induction n rule: py_str.induct)
  case (1 n)
  show ?case
  proof (cases "n < 10")
    case True
    then show ?thesis by (subst py_str.simps) (simp add: isdigit_char_of)
  next
    case False
    have "n mod 10 < 10" by simp
    then have "isdigit (char_of (48 + n mod 10))" by (rule isdigit_char_of)
    with False 1 show ?thesis by (subst py_str.simps) simp
  qed
qed

lemma digits_val_snoc: "digits_val acc (cs @ [c]) = digits_val acc cs * 10 + (of_char c - 48)"
  by (induction cs arbitrary: acc) auto

lemma digit_back: "d < 10 \<Longrightarrow> (of_char (char_of (48 + d :: nat)) :: nat) - 48 = d"
  by simp

lemma digits_val_py_str: "digits_val 0 (py_str n) = n"
proof (induction n rule: py_str.induct)
  case (1 n)
  show ?case
  proof (cases "n < 10")
    case True
    then show ?thesis by (subst py_str.simps) simp
  next
    case False
    have "n mod 10 < 10" by simp
    then have d: "(of_char (char_of (48 + n mod 10 :: nat)) :: nat) - 48 = n mod 10"
      by (rule digit_back)
    have "digits_val 0 (py_str n) = digits_val 0 (py_str (n div 10)) * 10 + n mod 10"
      using False by (subst py_str.simps) (simp add: digits_val_snoc d del: of_char_of)
    with 1 False show ?thesis by simp
  qed
qed

lemma isdigit_not_space: "isdigit c \<Longrightarrow> \<not> isspace c"
  by (auto simp: isdigit_def isspace_def)

lemma isdigit_not_sign: "isdigit c \<Longrightarrow> c \<noteq> CHR ''-'' \<and> c \<noteq> CHR ''+''"
  by (auto simp: isdigit_def)

lemma py_int_digits:
  assumes ne: "ds \<noteq> []" and d: "\<forall>c\<in>set ds. isdigit c"
  shows "py_int ds = Some (int (digits_val 0 ds))"
proof -
  have h: "isdigit (hd ds)" using ne d by simp
  have 1: "dropWhile isspace ds = ds" using ne h by (simp add: dropWhile_keep isdigit_not_space)
  have 2: "takeWhile isdigit ds = ds" using d by simp
  have 3: "dropWhile isdigit ds = []" using d by simp
  show ?thesis using ne h isdigit_not_sign[OF h] by (simp add: py_int_def 1 2 3 Let_def)
qed

lemma py_int_py_str: "py_int (py_str n) = Some (int n)"
  by (simp add: py_int_digits py_str_ne py_str_digits digits_val_py_str)


subsection \<open>The steps of \<^verbatim>\<open>main\<close>\<close>

lemma checkExisting_frame: "snd (checkExisting e w) = w"
  by (simp add: checkExisting_def read_pid_file_def Let_def split: option.splits)

lemma checkExisting_posix:
  "ON_POSIX e \<Longrightarrow> pid_file w = Some c \<Longrightarrow>
   checkExisting e w =
     (case py_int (strip c) of
        None \<Rightarrow> (CorruptRecord (strip c), w)
      | Some n \<Rightarrow> if unix_exist_pid e n then (Running (strip c), w) else (Stale (strip c), w))"
  by (simp add: checkExisting_def read_pid_file_def Let_def)

lemma checkExisting_windows:
  "\<not> ON_POSIX e \<Longrightarrow> IS_WINDOWS e \<Longrightarrow> pid_file w = Some c \<Longrightarrow>
   checkExisting e w =
     (if win_exist_pid e (strip c) then (Running (strip c), w) else (Stale (strip c), w))"
  by (simp add: checkExisting_def read_pid_file_def)

lemma checkExisting_other:
  "\<not> ON_POSIX e \<Longrightarrow> \<not> IS_WINDOWS e \<Longrightarrow> pid_file w = Some c \<Longrightarrow>
   checkExisting e w = (Running (strip c), w)"
  by (simp add: checkExisting_def read_pid_file_def)

lemma checkExisting_absent: "pid_file w = None \<Longrightarrow> checkExisting e w = (NoRecord, w)"
  by (simp add: checkExisting_def)

lemma main_Running: "checkExisting e w = (Running p, w1) \<Longrightarrow> main e w = (Inl (AlreadyRunning p), w1)"
  by (simp add: main_def server_already_running_def)

lemma main_Stale: "checkExisting e w = (Stale p, w1) \<Longrightarrow> main e w = launch e w1"
  by (simp add: main_def server_pid_not_running_def)

lemma main_NoRecord: "checkExisting e w = (NoRecord, w1) \<Longrightarrow> main e w = launch e w1"
  by (simp add: main_def)

lemma main_Corrupt: "checkExisting e w = (CorruptRecord p, w1) \<Longrightarrow> main e w = (Inl (ValueError p), w1)"
  by (simp add: main_def)

lemma launch_ok:
  "java e = Inr p \<Longrightarrow> writePid_error e = None \<Longrightarrow>
   launch e w = (Inr (), w\<lparr>pid_file := Some (py_str p), java_calls := Suc (java_calls w),
                          procs := procs w @ [p], stdout := stdout w @ [Started]\<rparr>)"
  by (simp add: launch_def writePid_def)

lemma launch_java_fails:
  "java e = Inl m \<Longrightarrow> launch e w = (Inl (JavaError m), w\<lparr>java_calls := Suc (java_calls w)\<rparr>)"
  by (simp add: launch_def)

lemma launch_write_fails:
  "java e = Inr p \<Longrightarrow> writePid_error e = Some m \<Longrightarrow>
   launch e w = (Inl (WritePidError m), w\<lparr>java_calls := Suc (java_calls w), procs := procs w @ [p]\<rparr>)"
  by (simp add: launch_def writePid_def)

lemma launch_Inr:
  "launch e w = (Inr u, w') \<Longrightarrow>
   \<exists>p. java e = Inr p \<and> writePid_error e = None \<and>
       w' = w\<lparr>pid_file := Some (py_str p), java_calls := Suc (java_calls w),
              procs := procs w @ [p], stdout := stdout w @ [Started]\<rparr>"
  by (auto simp: launch_def writePid_def Let_def split: sum.splits option.splits)

lemma main_Inr: "main e w = (Inr u, w') \<Longrightarrow> launch e w = (Inr u, w')"
  using checkExisting_frame [of e w]
  by (auto simp: main_def server_already_running_def server_pid_not_running_def
      split: prod.splits status.splits)

lemma script_Inl: "main e w = (Inl x, w1) \<Longrightarrow>
  script e w = (Some (- 1), w1\<lparr>stdout := stdout w1 @ [ExceptionLine x, Traceback x]\<rparr>)"
  by (simp add: script_def)

lemma script_Inr: "main e w = (Inr u, w1) \<Longrightarrow> script e w = (None, w1)"
  by (simp add: script_def)

lemma py_str_777: "py_str 777 = ''777''" by code_simp

lemma launch_posix_host:
  "launch posix_host (recorded c) =
     (Inr (), \<lparr>pid_file = Some ''777'', java_calls = 1, procs = [777], stdout = [Started]\<rparr>)"
  by (simp add: launch_def writePid_def posix_host_def recorded_def py_str_777)

lemma launch_calls: "java_calls (snd (launch e w)) = Suc (java_calls w)"
  by (cases "java e"; cases "writePid_error e") (simp_all add: launch_def writePid_def)

lemma main_cases:
  "(\<exists>pid. main e w = (Inl (AlreadyRunning pid), w)) \<or>
   (\<exists>pid. main e w = (Inl (ValueError pid), w)) \<or>
   main e w = launch e w"
proof -
  obtain st w1 where ce: "checkExisting e w = (st, w1)" by (cases "checkExisting e w")
  with checkExisting_frame [of e w] have w1: "w1 = w" by simp
  show ?thesis
  proof (cases st)
    case NoRecord
    with ce w1 show ?thesis by (simp add: main_NoRecord)
  next
    case (Running pid)
    with ce w1 show ?thesis by (simp add: main_Running)
  next
    case (Stale pid)
    with ce w1 show ?thesis by (simp add: main_Stale)
  next
    case (CorruptRecord pid)
    with ce w1 show ?thesis by (simp add: main_Corrupt)
  qed
qed

lemma launch_cases:
  "(\<exists>m. java e = Inl m \<and> launch e w = (Inl (JavaError m), w\<lparr>java_calls := Suc (java_calls w)\<rparr>)) \<or>
   (\<exists>p m. java e = Inr p \<and> writePid_error e = Some m \<and>
      launch e w = (Inl (WritePidError m), w\<lparr>java_calls := Suc (java_calls w), procs := procs w @ [p]\<rparr>)) \<or>
   (\<exists>p. java e = Inr p \<and> writePid_error e = None \<and>
      launch e w = (Inr (), w\<lparr>pid_file := Some (py_str p), java_calls := Suc (java_calls w),
                          procs := procs w @ [p], stdout := stdout w @ [Started]\<rparr>))"
  by (cases "java e"; cases "writePid_error e")
     (simp_all add: launch_java_fails launch_write_fails launch_ok)

lemma reported_Inl: "main e w = (Inl x, w1) \<Longrightarrow> reported e w = [ExceptionLine x, Traceback x]"
  by (simp add: reported_def script_def)

lemma main_proceeds:
  assumes "fst (checkExisting e w) = NoRecord \<or> fst (checkExisting e w) = Stale pid"
  shows "main e w = launch e w"
proof -
  obtain st w1 where ce: "checkExisting e w = (st, w1)" by (cases "checkExisting e w")
  with checkExisting_frame [of e w] have w1: "w1 = w" by simp
  from assms ce have "st = NoRecord \<or> st = Stale pid" by simp
  then show ?thesis
  proof
    assume "st = NoRecord"
    with ce w1 show ?thesis by (simp add: main_NoRecord)
  next
    assume "st = Stale pid"
    with ce w1 show ?thesis by (simp add: main_Stale)
  qed
qed

lemma recheck_id: "(recheck e ^^ n) w = w"
  by (induction n) (simp_all add: recheck_def checkExisting_frame)

section \<open>The claims\<close>

subsection \<open>C1: a record of a live process\<close>

text \<open>
  C1. When the PID file exists and holds the identifier of a live process (on POSIX the
  stripped text is an integer that \<^verbatim>\<open>unix_exist_pid\<close> finds, on Windows
  \<^verbatim>\<open>win_exist_pid\<close> finds the stripped text), the check yields \<open>Running\<close> with that
  identifier and the invocation ends in \<open>Refused\<close>: \<^verbatim>\<open>mc.java\<close> is not called, no
  process is created and the PID file is as before.
\<close>

theorem live_record_is_refused:
  assumes f: "pid_file w = Some c"
    and px: "ON_POSIX e \<longrightarrow> (\<exists>n. py_int (strip c) = Some n \<and> unix_exist_pid e n)"
    and wn: "\<not> ON_POSIX e \<and> IS_WINDOWS e \<longrightarrow> win_exist_pid e (strip c)"
  shows "checkExisting e w = (Running (strip c), w) \<and>
         main e w = (Inl (AlreadyRunning (strip c)), w) \<and>
         outcome_of (fst (main e w)) = Refused \<and>
         java_calls (snd (main e w)) = java_calls w \<and>
         procs (snd (main e w)) = procs w \<and>
         pid_file (snd (main e w)) = pid_file w"
proof -
  have ce: "checkExisting e w = (Running (strip c), w)"
  proof (cases "ON_POSIX e")
    case True
    with px obtain n where "py_int (strip c) = Some n" "unix_exist_pid e n" by blast
    with True f show ?thesis by (simp add: checkExisting_posix)
  next
    case False
    show ?thesis
    proof (cases "IS_WINDOWS e")
      case True
      with False wn f show ?thesis by (simp add: checkExisting_windows)
    next
      case w: False
      with False f show ?thesis by (simp add: checkExisting_other)
    qed
  qed
  then have "main e w = (Inl (AlreadyRunning (strip c)), w)" by (rule main_Running)
  with ce show ?thesis by simp
qed

theorem live_record_is_refused_witness:
  "checkExisting posix_host (recorded (''4242'' @ [CHR 0x0A])) = (Running ''4242'', recorded (''4242'' @ [CHR 0x0A])) \<and>
   main posix_host (recorded (''4242'' @ [CHR 0x0A])) = (Inl (AlreadyRunning ''4242''), recorded (''4242'' @ [CHR 0x0A])) \<and>
   outcome_of (fst (main posix_host (recorded (''4242'' @ [CHR 0x0A])))) = Refused \<and>
   java_calls (snd (main posix_host (recorded (''4242'' @ [CHR 0x0A])))) = 0"
  using live_record_is_refused [of "recorded (''4242'' @ [CHR 0x0A])" "''4242'' @ [CHR 0x0A]" posix_host]
  by (simp add: recorded_def posix_host_def strip_def py_int_def isspace_def isdigit_def)

subsection \<open>C2: a record that is no positive integer\<close>

text \<open>
  The check does not reject every content that is no positive integer. On a host that
  is neither POSIX nor Windows the text \<open>abc\<close> yields \<open>Running\<close>; on Windows it is
  handed to the probe as it is; on POSIX the text \<open>-5\<close> is an integer for
  \<^verbatim>\<open>int\<close>, is probed, found dead, and the launch goes ahead.
\<close>

theorem corrupt_record_counterexample:
  "fst (checkExisting other_host (recorded ''abc'')) \<noteq> CorruptRecord ''abc'' \<and>
   fst (checkExisting posix_host (recorded ''-5'')) \<noteq> CorruptRecord ''-5'' \<and>
   checkExisting other_host (recorded ''abc'') = (Running ''abc'', recorded ''abc'') \<and>
   checkExisting windows_host (recorded ''abc'') = (Stale ''abc'', recorded ''abc'') \<and>
   checkExisting posix_host (recorded ''-5'') = (Stale ''-5'', recorded ''-5'') \<and>
   java_calls (snd (main posix_host (recorded ''-5''))) = 1"
  by (simp add: checkExisting_def read_pid_file_def main_def launch_def writePid_def
      server_pid_not_running_def recorded_def other_host_def windows_host_def posix_host_def
      strip_def py_int_def isspace_def isdigit_def)

text \<open>
  C2, amended. On a POSIX host, when the stripped content of the PID file is no integer
  literal for \<^verbatim>\<open>int\<close>, the check ends in \<open>CorruptRecord\<close>: \<^verbatim>\<open>main\<close> raises the
  ValueError, \<^verbatim>\<open>mc.java\<close> is not called, and the exit status is not zero.
\<close>

theorem unparseable_record_on_posix:
  assumes px: "ON_POSIX e" and f: "pid_file w = Some c" and bad: "py_int (strip c) = None"
  shows "checkExisting e w = (CorruptRecord (strip c), w) \<and>
         main e w = (Inl (ValueError (strip c)), w) \<and>
         outcome_of (fst (main e w)) = Corrupt \<and>
         java_calls (snd (script e w)) = java_calls w \<and>
         exit_status (fst (script e w)) \<noteq> 0"
proof -
  have ce: "checkExisting e w = (CorruptRecord (strip c), w)"
    using px f bad by (simp add: checkExisting_posix)
  then have m: "main e w = (Inl (ValueError (strip c)), w)" by (rule main_Corrupt)
  from m ce show ?thesis by (simp add: script_Inl exit_status_def)
qed

theorem unparseable_record_on_posix_witness:
  "checkExisting posix_host (recorded ''abc'') = (CorruptRecord ''abc'', recorded ''abc'') \<and>
   main posix_host (recorded ''abc'') = (Inl (ValueError ''abc''), recorded ''abc'') \<and>
   outcome_of (fst (main posix_host (recorded ''abc''))) = Corrupt \<and>
   java_calls (snd (script posix_host (recorded ''abc''))) = 0 \<and>
   exit_status (fst (script posix_host (recorded ''abc''))) \<noteq> 0"
  using unparseable_record_on_posix [of posix_host "recorded ''abc''" "''abc''"]
  by (simp add: recorded_def posix_host_def strip_def py_int_def isspace_def isdigit_def)

subsection \<open>C3: what a successful launch leaves in the PID file\<close>

text \<open>
  C3. Whenever \<^verbatim>\<open>main\<close> returns normally, the PID file holds exactly \<^verbatim>\<open>str\<close> of the
  identifier of the process just created, whatever it held before: a non-empty run of
  decimal digits and nothing else, which \<^verbatim>\<open>int\<close> reads back as that identifier.
\<close>

theorem launch_records_new_pid:
  assumes "main e w = (Inr u, w')"
  shows "\<exists>p. java e = Inr p \<and> procs w' = procs w @ [p] \<and>
             pid_file w' = Some (py_str p) \<and>
             py_str p \<noteq> [] \<and> (\<forall>c\<in>set (py_str p). isdigit c) \<and>
             py_int (py_str p) = Some (int p)"
proof -
  from assms have "launch e w = (Inr u, w')" by (rule main_Inr)
  then obtain p where "java e = Inr p"
    and "w' = w\<lparr>pid_file := Some (py_str p), java_calls := Suc (java_calls w),
              procs := procs w @ [p], stdout := stdout w @ [Started]\<rparr>"
    using launch_Inr by blast
  then show ?thesis by (simp add: py_str_ne py_str_digits py_int_py_str)
qed

theorem launch_records_new_pid_witness:
  "main posix_host (recorded ''99999'') =
     (Inr (), \<lparr>pid_file = Some ''777'', java_calls = 1, procs = [777], stdout = [Started]\<rparr>) \<and>
   (\<exists>p. java posix_host = Inr p \<and> procs \<lparr>pid_file = Some ''777'', java_calls = 1, procs = [777], stdout = [Started]\<rparr> = procs (recorded ''99999'') @ [p] \<and>
        pid_file \<lparr>pid_file = Some ''777'', java_calls = 1, procs = [777], stdout = [Started]\<rparr> = Some (py_str p) \<and>
        py_str p \<noteq> [] \<and> (\<forall>c\<in>set (py_str p). isdigit c) \<and> py_int (py_str p) = Some (int p))"
proof -
  have m: "main posix_host (recorded ''99999'') =
     (Inr (), \<lparr>pid_file = Some ''777'', java_calls = 1, procs = [777], stdout = [Started]\<rparr>)"
    by (simp add: checkExisting_def read_pid_file_def main_def launch_def writePid_def
      server_pid_not_running_def recorded_def  posix_host_def
      strip_def py_int_def isspace_def isdigit_def py_str_777)
  show ?thesis using m launch_records_new_pid [OF m] by simp
qed

subsection \<open>C4: a record of a terminated process\<close>

text \<open>
  On a host that is neither POSIX nor Windows a record of a process that no probe finds
  alive is not \<open>Stale\<close>: the check yields \<open>Running\<close> and nothing is launched.
\<close>

theorem stale_record_counterexample:
  "\<not> unix_exist_pid other_host 99999 \<and> \<not> win_exist_pid other_host ''99999'' \<and>
   fst (checkExisting other_host (recorded ''99999'')) \<noteq> Stale ''99999'' \<and>
   java_calls (snd (main other_host (recorded ''99999''))) = 0 \<and>
   checkExisting other_host (recorded ''99999'') = (Running ''99999'', recorded ''99999'') \<and>
   main other_host (recorded ''99999'') = (Inl (AlreadyRunning ''99999''), recorded ''99999'')"
  by (simp add: checkExisting_def read_pid_file_def main_def server_already_running_def
      recorded_def other_host_def strip_def isspace_def)

text \<open>
  C4, amended. On a POSIX or Windows host, when the PID file holds the identifier of a
  process that the probe of the platform does not find, the check yields \<open>Stale\<close> with
  that identifier and \<^verbatim>\<open>main\<close> goes on to the launch; when the process is created and
  the write succeeds, the invocation ends in \<open>Recorded\<close> and the PID file holds the
  identifier of the new process.
\<close>

theorem stale_record_is_reclaimed:
  assumes f: "pid_file w = Some c"
    and pf: "ON_POSIX e \<or> IS_WINDOWS e"
    and px: "ON_POSIX e \<longrightarrow> (\<exists>n. py_int (strip c) = Some n \<and> \<not> unix_exist_pid e n)"
    and wn: "\<not> ON_POSIX e \<longrightarrow> \<not> win_exist_pid e (strip c)"
  shows "checkExisting e w = (Stale (strip c), w) \<and>
         main e w = launch e w \<and>
         (\<forall>p. java e = Inr p \<and> writePid_error e = None \<longrightarrow>
            outcome_of (fst (main e w)) = Recorded \<and>
            pid_file (snd (main e w)) = Some (py_str p) \<and>
            procs (snd (main e w)) = procs w @ [p])"
proof -
  have ce: "checkExisting e w = (Stale (strip c), w)"
  proof (cases "ON_POSIX e")
    case True
    with px obtain n where "py_int (strip c) = Some n" "\<not> unix_exist_pid e n" by blast
    with True f show ?thesis by (simp add: checkExisting_posix)
  next
    case False
    with pf wn f show ?thesis by (simp add: checkExisting_windows)
  qed
  then have m: "main e w = launch e w" by (rule main_Stale)
  from ce m show ?thesis by (simp add: launch_ok)
qed

theorem stale_record_is_reclaimed_witness:
  "checkExisting posix_host (recorded ''99999'') = (Stale ''99999'', recorded ''99999'') \<and>
   main posix_host (recorded ''99999'') = launch posix_host (recorded ''99999'') \<and>
   outcome_of (fst (main posix_host (recorded ''99999''))) = Recorded \<and>
   pid_file (snd (main posix_host (recorded ''99999''))) = Some ''777'' \<and>
   procs (snd (main posix_host (recorded ''99999''))) = [777]"
proof -
  have h1: "pid_file (recorded ''99999'') = Some ''99999''" by (simp add: recorded_def)
  have h2: "ON_POSIX posix_host \<or> IS_WINDOWS posix_host" by (simp add: posix_host_def)
  have h3: "ON_POSIX posix_host \<longrightarrow>
      (\<exists>n. py_int (strip ''99999'') = Some n \<and> \<not> unix_exist_pid posix_host n)"
    by (simp add: posix_host_def strip_def py_int_def isspace_def isdigit_def)
  have h4: "\<not> ON_POSIX posix_host \<longrightarrow> \<not> win_exist_pid posix_host (strip ''99999'')"
    by (simp add: posix_host_def)
  have s: "strip ''99999'' = ''99999''" by (simp add: strip_def isspace_def)
  show ?thesis
    using stale_record_is_reclaimed [OF h1 h2 h3 h4] by (simp add: s launch_posix_host)
qed

subsection \<open>C5: a platform that is neither POSIX nor Windows\<close>

text \<open>
  C5. On a host that is neither POSIX nor Windows, when the PID file exists, the check
  yields \<open>Running\<close> with the stripped content and the invocation ends in \<open>Refused\<close>,
  with no call of \<^verbatim>\<open>mc.java\<close>, whatever the probes would say about the recorded process.
\<close>

theorem unsupported_platform_refuses:
  assumes "\<not> ON_POSIX e" and "\<not> IS_WINDOWS e" and "pid_file w = Some c"
  shows "checkExisting e w = (Running (strip c), w) \<and>
         main e w = (Inl (AlreadyRunning (strip c)), w) \<and>
         outcome_of (fst (main e w)) = Refused \<and>
         java_calls (snd (main e w)) = java_calls w \<and>
         procs (snd (main e w)) = procs w \<and>
         pid_file (snd (main e w)) = pid_file w"
proof -
  from assms have ce: "checkExisting e w = (Running (strip c), w)" by (rule checkExisting_other)
  then have "main e w = (Inl (AlreadyRunning (strip c)), w)" by (rule main_Running)
  with ce show ?thesis by simp
qed

theorem unsupported_platform_refuses_witness:
  "checkExisting other_host (recorded ''99999'') = (Running ''99999'', recorded ''99999'') \<and>
   main other_host (recorded ''99999'') = (Inl (AlreadyRunning ''99999''), recorded ''99999'') \<and>
   outcome_of (fst (main other_host (recorded ''99999''))) = Refused \<and>
   java_calls (snd (main other_host (recorded ''99999''))) = 0"
  using unsupported_platform_refuses [of other_host "recorded ''99999''" "''99999''"]
  by (simp add: other_host_def recorded_def strip_def isspace_def)

subsection \<open>C6: no PID file\<close>

text \<open>
  C6. When the PID file does not exist, the check yields \<open>NoRecord\<close> and \<^verbatim>\<open>main\<close> goes
  straight to the launch: \<^verbatim>\<open>mc.java\<close> is called once.
\<close>

theorem absent_record_launches:
  assumes "pid_file w = None"
  shows "checkExisting e w = (NoRecord, w) \<and> main e w = launch e w \<and>
         java_calls (snd (main e w)) = Suc (java_calls w)"
proof -
  from assms have ce: "checkExisting e w = (NoRecord, w)" by (rule checkExisting_absent)
  then have "main e w = launch e w" by (rule main_NoRecord)
  with ce show ?thesis by (simp add: launch_calls)
qed

theorem absent_record_launches_witness:
  "checkExisting posix_host no_record = (NoRecord, no_record) \<and>
   main posix_host no_record = launch posix_host no_record \<and>
   java_calls (snd (main posix_host no_record)) = Suc (java_calls no_record)"
  using absent_record_launches [of no_record posix_host] by (simp add: no_record_def launch_calls)

subsection \<open>C7: the report of a failed write of the PID file\<close>

text \<open>
  C7. When the check lets the launch go ahead, the process is created and
  \<^verbatim>\<open>mc.writePid\<close> cannot write its identifier, \<^verbatim>\<open>main\<close> ends with the exception of
  \<^verbatim>\<open>mc.writePid\<close>, the state \<open>PersistFailed\<close>, the new process having been created; a
  launch in which \<^verbatim>\<open>mc.java\<close> fails ends with the exception of \<^verbatim>\<open>mc.java\<close>, the state
  \<open>LaunchFailed\<close>, with no process created. The two are different errors, whatever their
  texts, and what the \<^verbatim>\<open>__main__\<close> block prints for the one differs from what it prints
  for the other; the exit status of the failed write is not zero.
\<close>

theorem persist_failure_is_distinct:
  assumes j: "java e = Inr p" and wr: "writePid_error e = Some m"
    and go: "fst (checkExisting e w) = NoRecord \<or> fst (checkExisting e w) = Stale pid"
    and j': "java e' = Inl m'"
    and go': "fst (checkExisting e' w') = NoRecord \<or> fst (checkExisting e' w') = Stale pid'"
  shows "main e w = (Inl (WritePidError m),
                     w\<lparr>java_calls := Suc (java_calls w), procs := procs w @ [p]\<rparr>) \<and>
         outcome_of (fst (main e w)) = PersistFailed \<and>
         main e' w' = (Inl (JavaError m'), w'\<lparr>java_calls := Suc (java_calls w')\<rparr>) \<and>
         outcome_of (fst (main e' w')) = LaunchFailed \<and>
         fst (main e w) \<noteq> fst (main e' w') \<and>
         reported e w = [ExceptionLine (WritePidError m), Traceback (WritePidError m)] \<and>
         reported e' w' = [ExceptionLine (JavaError m'), Traceback (JavaError m')] \<and>
         reported e w \<noteq> reported e' w' \<and>
         exit_status (fst (script e w)) \<noteq> 0"
proof -
  from go have "main e w = launch e w" by (rule main_proceeds)
  with j wr have m1: "main e w = (Inl (WritePidError m),
      w\<lparr>java_calls := Suc (java_calls w), procs := procs w @ [p]\<rparr>)"
    by (simp add: launch_write_fails)
  from go' have "main e' w' = launch e' w'" by (rule main_proceeds)
  with j' have m2: "main e' w' = (Inl (JavaError m'), w'\<lparr>java_calls := Suc (java_calls w')\<rparr>)"
    by (simp add: launch_java_fails)
  have r1: "reported e w = [ExceptionLine (WritePidError m), Traceback (WritePidError m)]"
    using m1 by (rule reported_Inl)
  have r2: "reported e' w' = [ExceptionLine (JavaError m'), Traceback (JavaError m')]"
    using m2 by (rule reported_Inl)
  have x: "exit_status (fst (script e w)) \<noteq> 0"
    by (simp add: script_Inl [OF m1] exit_status_def)
  show ?thesis by (simp add: m1 m2 r1 r2 x)
qed

theorem persist_failure_is_distinct_witness:
  "main persist_fails no_record =
     (Inl (WritePidError ''Read-only file system''),
      \<lparr>pid_file = None, java_calls = 1, procs = [777], stdout = []\<rparr>) \<and>
   outcome_of (fst (main persist_fails no_record)) = PersistFailed \<and>
   main launch_fails (recorded ''99999'') =
     (Inl (JavaError ''No such file or directory''),
      \<lparr>pid_file = Some ''99999'', java_calls = 1, procs = [], stdout = []\<rparr>) \<and>
   outcome_of (fst (main launch_fails (recorded ''99999''))) = LaunchFailed \<and>
   reported persist_fails no_record =
     [ExceptionLine (WritePidError ''Read-only file system''),
      Traceback (WritePidError ''Read-only file system'')] \<and>
   reported persist_fails no_record \<noteq> reported launch_fails (recorded ''99999'') \<and>
   exit_status (fst (script persist_fails no_record)) \<noteq> 0"
proof -
  have j: "java persist_fails = Inr 777"
    by (simp add: persist_fails_def posix_host_def)
  have wr: "writePid_error persist_fails = Some ''Read-only file system''"
    by (simp add: persist_fails_def)
  have go: "fst (checkExisting persist_fails no_record) = NoRecord \<or>
            fst (checkExisting persist_fails no_record) = Stale ''99999''"
    by (simp add: checkExisting_def no_record_def)
  have j': "java launch_fails = Inl ''No such file or directory''"
    by (simp add: launch_fails_def)
  have go': "fst (checkExisting launch_fails (recorded ''99999'')) = NoRecord \<or>
             fst (checkExisting launch_fails (recorded ''99999'')) = Stale ''99999''"
    by (simp add: checkExisting_def read_pid_file_def launch_fails_def posix_host_def
        recorded_def strip_def py_int_def isspace_def isdigit_def)
  have w1: "no_record\<lparr>java_calls := Suc (java_calls no_record), procs := procs no_record @ [777]\<rparr> =
            \<lparr>pid_file = None, java_calls = 1, procs = [777], stdout = []\<rparr>"
    by (simp add: no_record_def)
  have w2: "recorded ''99999''\<lparr>java_calls := Suc (java_calls (recorded ''99999''))\<rparr> =
            \<lparr>pid_file = Some ''99999'', java_calls = 1, procs = [], stdout = []\<rparr>"
    by (simp add: recorded_def)
  show ?thesis
    using persist_failure_is_distinct [OF j wr go j' go'] by (simp add: w1 w2)
qed

subsection \<open>C8: the check only reads\<close>

text \<open>
  C8. A check leaves the PID file as it is, absent or with the same content, however
  often it is repeated, and every repetition yields the same status.
\<close>

theorem check_never_mutates:
  "pid_file (snd (checkExisting e w)) = pid_file w \<and>
   pid_file ((recheck e ^^ n) w) = pid_file w \<and>
   fst (checkExisting e ((recheck e ^^ n) w)) = fst (checkExisting e w)"
  by (simp add: recheck_id checkExisting_frame)

theorem check_never_mutates_witness:
  "pid_file (snd (checkExisting posix_host (recorded ''4242''))) = Some ''4242'' \<and>
   pid_file ((recheck posix_host ^^ 3) (recorded ''4242'')) = Some ''4242'' \<and>
   fst (checkExisting posix_host ((recheck posix_host ^^ 3) (recorded ''4242''))) = Running ''4242''"
proof -
  have "checkExisting posix_host (recorded ''4242'') = (Running ''4242'', recorded ''4242'')"
    by (simp add: checkExisting_def read_pid_file_def recorded_def posix_host_def
        strip_def py_int_def isspace_def isdigit_def)
  moreover have "pid_file (recorded ''4242'') = Some ''4242''" by (simp add: recorded_def)
  ultimately show ?thesis using check_never_mutates [of posix_host "recorded ''4242''" 3] by simp
qed

subsection \<open>C9: exit status and message\<close>

text \<open>
  C9. An invocation that ends in \<open>Recorded\<close> exits with status 0; one that ends in
  \<open>Refused\<close>, \<open>Corrupt\<close>, \<open>LaunchFailed\<close> or \<open>PersistFailed\<close> prints the line of the
  exception and its traceback, has return code \<open>-1\<close> and exits with a status that is
  not zero.
\<close>

theorem exit_status_of_outcomes:
  "(outcome_of (fst (main e w)) = Recorded \<longrightarrow>
      fst (script e w) = None \<and> exit_status (fst (script e w)) = 0) \<and>
   (outcome_of (fst (main e w)) \<in> {Refused, Corrupt, LaunchFailed, PersistFailed} \<longrightarrow>
      fst (script e w) = Some (- 1) \<and> exit_status (fst (script e w)) \<noteq> 0 \<and>
      (\<exists>x. fst (main e w) = Inl x \<and>
           stdout (snd (script e w)) =
             stdout (snd (main e w)) @ [ExceptionLine x, Traceback x]))"
proof -
  obtain r w1 where m: "main e w = (r, w1)" by (cases "main e w")
  show ?thesis
  proof (cases r)
    case (Inl x)
    have "outcome_of (Inl x) \<noteq> Recorded" by (cases x) simp_all
    then show ?thesis using m Inl by (simp add: script_def exit_status_def)
  next
    case (Inr u)
    then show ?thesis using m by (simp add: script_def exit_status_def)
  qed
qed

theorem exit_status_of_outcomes_witness:
  "exit_status (fst (script posix_host no_record)) = 0 \<and>
   exit_status (fst (script posix_host (recorded ''4242''))) \<noteq> 0 \<and>
   exit_status (fst (script posix_host (recorded ''abc''))) \<noteq> 0 \<and>
   exit_status (fst (script launch_fails no_record)) \<noteq> 0 \<and>
   exit_status (fst (script persist_fails no_record)) \<noteq> 0"
proof -
  have o1: "outcome_of (fst (main posix_host no_record)) = Recorded"
    by (simp add: main_def checkExisting_def launch_def writePid_def posix_host_def no_record_def)
  have o2: "outcome_of (fst (main posix_host (recorded ''4242''))) = Refused"
    by (simp add: main_def checkExisting_def read_pid_file_def server_already_running_def
        posix_host_def recorded_def strip_def py_int_def isspace_def isdigit_def)
  have o3: "outcome_of (fst (main posix_host (recorded ''abc''))) = Corrupt"
    by (simp add: main_def checkExisting_def read_pid_file_def
        posix_host_def recorded_def strip_def py_int_def isspace_def isdigit_def)
  have o4: "outcome_of (fst (main launch_fails no_record)) = LaunchFailed"
    by (simp add: main_def checkExisting_def launch_def launch_fails_def posix_host_def no_record_def)
  have o5: "outcome_of (fst (main persist_fails no_record)) = PersistFailed"
    by (simp add: main_def checkExisting_def launch_def writePid_def persist_fails_def
        posix_host_def no_record_def)
  show ?thesis
    using exit_status_of_outcomes [of posix_host no_record] exit_status_of_outcomes [of posix_host "recorded ''4242''"]
      exit_status_of_outcomes [of posix_host "recorded ''abc''"] exit_status_of_outcomes [of launch_fails no_record]
      exit_status_of_outcomes [of persist_fails no_record]
    by (simp add: o1 o2 o3 o4 o5 exit_status_def)
qed

subsection \<open>C10: the content is stripped before it is read\<close>



end
